theory Spec2Isabelle
  imports Complex_Main "HOL-Library.Word"
begin

section \<open>Python values, exceptions and the struct module\<close>

text \<open>
  The module under verification is \<^verbatim>\<open>socks_proxy.py\<close>: the exact-read helper
  \<^verbatim>\<open>recv_all_into\<close> and the SOCKS5 connector \<^verbatim>\<open>socks_proxy_create_connection\<close>.
  Python values that reach the connector as \<^verbatim>\<open>address\<close>, \<^verbatim>\<open>timeout\<close> or keyword
  arguments are values of \<open>pyval\<close>. A \<^verbatim>\<open>str\<close> is kept as the list of the bytes of its
  encoding, since the only thing the code does with the host name is \<^verbatim>\<open>.encode()\<close>.
\<close>

type_synonym byte = "8 word"

datatype pyval =
    PyNone
  | PyBool bool
  | PyInt int
  | PyFloat rat
  | PyStr string
  | PyTuple "pyval list"
  | PyList "pyval list"

text \<open>
  The exception classes of the module (lines 26-39) and the built-in exceptions the
  code can raise. \<open>StructError\<close> is \<^verbatim>\<open>struct.error\<close>.
\<close>

datatype error =
    ArgSocksProxyError string
  | FormatSocksProxyError string
  | AuthSocksProxyError string
  | ConnectSocksProxyError string
  | StructError string
  | AttributeError string
  | TypeError string
  | AssertionError
  | KeyError string
  | IndexError
  | OSError string

fun isinstance_str :: "pyval \<Rightarrow> bool" where
  "isinstance_str (PyStr _) = True"
| "isinstance_str _ = False"

text \<open>\<^verbatim>\<open>bool\<close> is a subclass of \<^verbatim>\<open>int\<close>, so \<^verbatim>\<open>isinstance(True, int)\<close> holds.\<close>

fun isinstance_int :: "pyval \<Rightarrow> bool" where
  "isinstance_int (PyInt _) = True"
| "isinstance_int (PyBool _) = True"
| "isinstance_int _ = False"

text \<open>The elements of a tuple or list; \<open>None\<close> for a value that is neither.\<close>

fun py_items :: "pyval \<Rightarrow> pyval list option" where
  "py_items (PyTuple xs) = Some xs"
| "py_items (PyList xs) = Some xs"
| "py_items _ = None"

definition str_encode :: "string \<Rightarrow> byte list" where
  "str_encode h = map of_char h"

definition bytearray :: "nat \<Rightarrow> byte list" where
  "bytearray n = replicate n 0"

subsection \<open>struct.pack and struct.unpack\<close>

text \<open>
  CPython's \<^verbatim>\<open>struct\<close> reads a format string in two steps. A byte-order character
  (here \<^verbatim>\<open>!\<close>, network order) is recognised as the FIRST character only and is
  stripped; every character after it must be a format code, and a character that is
  not one makes the call fail with \<^verbatim>\<open>struct.error: bad char in struct format\<close>.
  \<^verbatim>\<open>!\<close> is not a format code, so \<^verbatim>\<open>'!BBB'\<close> is a format of three unsigned
  bytes while \<^verbatim>\<open>'!B!B!B'\<close> is refused. The model covers network-order formats over
  the two codes this module uses: \<^verbatim>\<open>B\<close> (one byte, 0..255) and \<^verbatim>\<open>H\<close> (two
  bytes big-endian, 0..65535). Other codes, repeat counts and white space, of which
  the module's formats have none, are outside it, and the texts of the range and size
  errors are shortened.
\<close>

definition struct_body :: "string \<Rightarrow> string" where
  "struct_body fmt =
     (case fmt of [] \<Rightarrow> [] | c # cs \<Rightarrow> if c = CHR ''!'' then cs else c # cs)"

fun item_size :: "char \<Rightarrow> nat option" where
  "item_size c =
     (if c = CHR ''B'' then Some 1 else if c = CHR ''H'' then Some 2 else None)"

definition prepare_s :: "string \<Rightarrow> error + string" where
  "prepare_s fmt =
     (if list_all (\<lambda>c. item_size c \<noteq> None) (struct_body fmt)
      then Inr (struct_body fmt)
      else Inl (StructError ''bad char in struct format''))"

definition pack_item :: "char \<Rightarrow> int \<Rightarrow> error + byte list" where
  "pack_item c v =
     (if c = CHR ''B'' then
        (if 0 \<le> v \<and> v \<le> 255 then Inr [word_of_int v]
         else Inl (StructError ''ubyte format requires 0 <= number <= 255''))
      else
        (if 0 \<le> v \<and> v \<le> 65535 then Inr [word_of_int (v div 256), word_of_int (v mod 256)]
         else Inl (StructError ''H format requires 0 <= number <= 65535'')))"

fun pack_items :: "string \<Rightarrow> int list \<Rightarrow> error + byte list" where
  "pack_items (c # cs) (v # vs) =
     (case pack_item c v of
        Inl e \<Rightarrow> Inl e
      | Inr b \<Rightarrow> (case pack_items cs vs of Inl e \<Rightarrow> Inl e | Inr bs \<Rightarrow> Inr (b @ bs)))"
| "pack_items _ _ = Inr []"

definition struct_pack :: "string \<Rightarrow> int list \<Rightarrow> error + byte list" where
  "struct_pack fmt args =
     (case prepare_s fmt of
        Inl e \<Rightarrow> Inl e
      | Inr codes \<Rightarrow>
          if length codes \<noteq> length args
          then Inl (StructError ''pack expected a different number of items'')
          else pack_items codes args)"

text \<open>Decoding runs behind the size test of \<open>struct_unpack\<close>, so the buffer holds
  the bytes every code takes.\<close>

fun unpack_items :: "string \<Rightarrow> byte list \<Rightarrow> int list" where
  "unpack_items [] _ = []"
| "unpack_items (c # cs) bs =
     (if c = CHR ''B'' then uint (hd bs) # unpack_items cs (tl bs)
      else (256 * uint (hd bs) + uint (hd (tl bs))) # unpack_items cs (tl (tl bs)))"

definition calcsize :: "string \<Rightarrow> nat" where
  "calcsize codes = sum_list (map (\<lambda>c. if c = CHR ''B'' then 1 else 2) codes)"

definition struct_unpack :: "string \<Rightarrow> byte list \<Rightarrow> error + int list" where
  "struct_unpack fmt buf =
     (case prepare_s fmt of
        Inl e \<Rightarrow> Inl e
      | Inr codes \<Rightarrow>
          if length buf \<noteq> calcsize codes
          then Inl (StructError ''unpack requires a buffer of a different size'')
          else Inr (unpack_items codes buf))"

section \<open>The stream\<close>

text \<open>
  Modelled from the spec: the connection as a Stream. It is what
  \<^verbatim>\<open>monkey_patch.original_create_connection\<close> returns, and the module
  \<^verbatim>\<open>monkey_patch\<close> is not among the sources. The spec's Stream interface gives its
  operations: a write that writes all bytes, and a read into a buffer that returns the
  number of bytes placed there, possibly fewer than the buffer holds and 0 when the
  peer has closed (\<open>sock_recv\<close>; on Python's socket class that read is
  \<^verbatim>\<open>recv_into\<close>, not \<^verbatim>\<open>recv\<close>). \<open>incoming\<close> holds the bytes the proxy sends that have not been read
  yet; \<open>frags\<close> bounds, call by call, how many bytes the transport hands over (once
  the list is used up a read delivers all it can). \<open>sent\<close> is every byte written so
  far, \<open>keepalive\<close> the SO_KEEPALIVE option, \<open>sock_timeout\<close> the timeout last set on
  this object.
\<close>

record sock =
  incoming :: "byte list"
  frags :: "nat list"
  sent :: "byte list"
  keepalive :: bool
  sock_timeout :: "pyval option"

definition sock_recv :: "sock \<Rightarrow> nat \<Rightarrow> byte list \<times> sock" where
  "sock_recv s n =
     (case frags s of
        [] \<Rightarrow> (take n (incoming s), s\<lparr>incoming := drop n (incoming s)\<rparr>)
      | c # cs \<Rightarrow> (take (min c n) (incoming s),
                   s\<lparr>incoming := drop (min c n) (incoming s), frags := cs\<rparr>))"

definition sendall :: "sock \<Rightarrow> byte list \<Rightarrow> sock" where
  "sendall s bs = s\<lparr>sent := sent s @ bs\<rparr>"

definition setsockopt_keepalive :: "sock \<Rightarrow> sock" where
  "setsockopt_keepalive s = s\<lparr>keepalive := True\<rparr>"

section \<open>recv\_all\_into (lines 41-48)\<close>

text \<open>
  \<^verbatim>\<open>buf = memoryview(buf)\<close> and \<^verbatim>\<open>buf = buf[recv_res:]\<close> make views of one
  bytearray: a view is the window \<open>off ..< off + n\<close> of the array \<open>arr\<close>, and a read
  into the view writes the array there. Here \<^verbatim>\<open>sock.recv(buf)\<close> is the read of the
  Stream interface: it fills the view from its start and returns the count, which
  becomes \<open>recv_res\<close>. The loop has no bound of its own, so not returning is the
  value \<open>None\<close>. What the same lines do on Python's own socket class, whose
  \<^verbatim>\<open>recv\<close> takes a byte count, is \<open>recv_all_into_socket\<close> further down.
\<close>

definition write_at :: "byte list \<Rightarrow> nat \<Rightarrow> byte list \<Rightarrow> byte list" where
  "write_at arr off bs = take off arr @ bs @ drop (off + length bs) arr"

partial_function (option) recv_loop ::
  "sock \<Rightarrow> byte list \<Rightarrow> nat \<Rightarrow> nat \<Rightarrow> nat \<Rightarrow> (byte list \<times> sock) option" where
  "recv_loop s arr off n recv_res =
     (if recv_res < n then
        (let off' = (if recv_res > 0 then off + recv_res else off);
             n' = (if recv_res > 0 then n - recv_res else n);
             r = sock_recv s n'
         in recv_loop (snd r) (write_at arr off' (fst r)) off' n' (length (fst r)))
      else Some (arr, s))"

declare recv_loop.simps [code]

definition recv_all_into :: "sock \<Rightarrow> byte list \<Rightarrow> (byte list \<times> sock) option" where
  "recv_all_into s buf = recv_loop s buf 0 (length buf) 0"

section \<open>socks\_proxy\_create\_connection (lines 52-198)\<close>

text \<open>
  What a run of a piece of the connector on a connection comes to: it does not return
  (\<open>Diverges\<close>), it raises with the connection left in the given state, or it
  completes. For the whole call, \<open>BeforeDial\<close> is an exception raised before
  \<^verbatim>\<open>original_create_connection\<close> is called (no connection exists), \<open>DialRaised\<close> an
  exception of that call itself, and \<open>OnConnection\<close> what happened on the connection
  it returned.
\<close>

datatype outcome = Diverges | Raises error sock | Returns sock

datatype call_outcome = BeforeDial error | DialRaised error | OnConnection outcome

text \<open>
  The module \<^verbatim>\<open>monkey_patch\<close> is not among the sources; the two names the connector
  uses from it are parameters: what \<^verbatim>\<open>assert_patched()\<close> raises, if anything, and the
  dial function with its keyword arguments.
\<close>

record monkey_patch =
  assert_patched :: "error option"
  original_create_connection :: "pyval \<Rightarrow> (string \<rightharpoonup> pyval) \<Rightarrow> error + sock"

definition DEFAULT_PROXY_TIMEOUT :: pyval where
  "DEFAULT_PROXY_TIMEOUT = PyFloat 60"

definition kwargs_get :: "(string \<rightharpoonup> pyval) \<Rightarrow> string \<Rightarrow> pyval" where
  "kwargs_get kwargs k = (case kwargs k of None \<Rightarrow> PyNone | Some v \<Rightarrow> v)"

text \<open>
  Lines 65-68, the test that guards the raise of \<^verbatim>\<open>ArgSocksProxyError\<close>. Python's
  \<^verbatim>\<open>or\<close> stops at the first disjunct that holds, so \<^verbatim>\<open>address[0]\<close> is only read
  from a tuple or list of length 2.
\<close>

definition address_malformed :: "pyval \<Rightarrow> bool" where
  "address_malformed address =
     (case py_items address of
        None \<Rightarrow> True
      | Some xs \<Rightarrow>
          if length xs \<noteq> 2 then True
          else if isinstance_str (xs ! 0) then (if isinstance_int (xs ! 1) then False else True)
          else True)"

text \<open>
  \<^verbatim>\<open>address[0]\<close> and \<^verbatim>\<open>address[1]\<close> as the command phase uses them, behind its
  three assertions (lines 108-110): a \<^verbatim>\<open>str\<close> and an \<^verbatim>\<open>int\<close> (a \<^verbatim>\<open>bool\<close> packs
  as 0 or 1).
\<close>

fun int_value :: "pyval \<Rightarrow> int option" where
  "int_value (PyInt i) = Some i"
| "int_value (PyBool b) = Some (if b then 1 else 0)"
| "int_value _ = None"

fun str_value :: "pyval \<Rightarrow> string option" where
  "str_value (PyStr h) = Some h"
| "str_value _ = None"

definition address_parts :: "pyval \<Rightarrow> (string \<times> int) option" where
  "address_parts address =
     (case py_items address of
        Some [h, p] \<Rightarrow>
          (case str_value h of
             None \<Rightarrow> None
           | Some host \<Rightarrow> (case int_value p of None \<Rightarrow> None | Some port \<Rightarrow> Some (host, port)))
      | _ \<Rightarrow> None)"

text \<open>Sequencing: an exception of \<^verbatim>\<open>struct\<close> leaves the connection as it is; an
  exact read that does not return makes the whole run not return. The exact reads of
  the phases are taken in the Stream reading; on Python's socket class each read of a
  non-empty buffer raises \<^verbatim>\<open>TypeError\<close> instead (\<open>recv_all_into_socket\<close>). The
  greeting and command phases raise their \<^verbatim>\<open>struct.error\<close> before any read in
  either reading.\<close>

definition on_struct :: "error + 'a \<Rightarrow> sock \<Rightarrow> ('a \<Rightarrow> outcome) \<Rightarrow> outcome" where
  "on_struct r s k = (case r of Inl e \<Rightarrow> Raises e s | Inr v \<Rightarrow> k v)"

definition on_recv :: "(byte list \<times> sock) option \<Rightarrow> (byte list \<Rightarrow> sock \<Rightarrow> outcome) \<Rightarrow> outcome" where
  "on_recv r k = (case r of None \<Rightarrow> Diverges | Some (buf, s) \<Rightarrow> k buf s)"

subsection \<open>Greeting phase (lines 89-104)\<close>

definition greeting_phase :: "sock \<Rightarrow> outcome" where
  "greeting_phase s =
     on_struct (struct_pack ''!B!B!B'' [0x05, 0x01, 0x00]) s (\<lambda>msg.
     on_recv (recv_all_into (sendall s msg) (bytearray 2)) (\<lambda>buf s1.
     on_struct (struct_unpack ''!B!B'' buf) s1 (\<lambda>recv_data.
       case recv_data of
         [ver, method] \<Rightarrow>
           if ver \<noteq> 0x05
           then Raises (FormatSocksProxyError ''invalid socks-proxy format (socks5: greeting phase)'') s1
           else if method \<noteq> 0x00
           then Raises (AuthSocksProxyError ''invalid socks-proxy authorization (socks5: greeting phase)'') s1
           else Returns s1
       | _ \<Rightarrow> Raises IndexError s1)))"

subsection \<open>Command phase (lines 108-163)\<close>

definition hex_digit :: "nat \<Rightarrow> char" where
  "hex_digit d = ''0123456789abcdef'' ! d"

fun hex_digits :: "nat \<Rightarrow> string" where
  "hex_digits n =
     (if n < 16 then [hex_digit n] else hex_digits (n div 16) @ [hex_digit (n mod 16)])"

text \<open>\<^verbatim>\<open>hex\<close> of a non-negative integer, and \<^verbatim>\<open>repr\<close> of a string without quotes,
  backslashes or control characters.\<close>

definition py_hex :: "int \<Rightarrow> string" where
  "py_hex v = ''0x'' @ hex_digits (nat v)"

definition py_repr :: "string \<Rightarrow> string" where
  "py_repr x = [CHR 0x27] @ x @ [CHR 0x27]"

text \<open>Lines 139-158: the description of a non-zero status.\<close>

definition error_descr :: "int \<Rightarrow> string" where
  "error_descr status =
     (if status = 0x01 then ''general failure''
      else if status = 0x02 then ''connection not allowed by ruleset''
      else if status = 0x03 then ''network unreachable''
      else if status = 0x04 then ''host unreachable''
      else if status = 0x05 then ''connection refused by destination host''
      else if status = 0x06 then ''TTL expired''
      else if status = 0x07 then ''command not supported / protocol error''
      else if status = 0x08 then ''address type not supported''
      else py_hex status)"

definition connect_error :: "int \<Rightarrow> error" where
  "connect_error status =
     ConnectSocksProxyError
       (''socks-proxy can not create connection: '' @ py_repr (error_descr status)
        @ '' (socks5: command phase)'')"

definition command_phase :: "sock \<Rightarrow> pyval \<Rightarrow> outcome" where
  "command_phase s address =
     (case address_parts address of
        None \<Rightarrow> Raises AssertionError s
      | Some (host, port) \<Rightarrow>
          (let host_bytes = str_encode host in
           on_struct (struct_pack ''!B!B!B!B!B'' [0x05, 0x01, 0x00, 0x03, int (length host_bytes)]) s
             (\<lambda>head.
           on_struct (struct_pack ''!H'' [port]) s (\<lambda>tail.
           on_recv (recv_all_into (sendall s (head @ host_bytes @ tail)) (bytearray 2)) (\<lambda>buf s1.
           on_struct (struct_unpack ''!B!B'' buf) s1 (\<lambda>recv_data.
             case recv_data of
               [ver, status] \<Rightarrow>
                 if ver \<noteq> 0x05
                 then Raises (FormatSocksProxyError ''invalid socks-proxy format (socks5: command phase)'') s1
                 else if status \<noteq> 0x00 then Raises (connect_error status) s1
                 else Returns s1
             | _ \<Rightarrow> Raises IndexError s1))))))"

subsection \<open>Reply-address drain (lines 165-191)\<close>

definition drain_port :: "sock \<Rightarrow> outcome" where
  "drain_port s =
     on_recv (recv_all_into s (bytearray 2)) (\<lambda>port_recv_data s1.
     on_struct (struct_unpack ''!H'' port_recv_data) s1 (\<lambda>recv_data. Returns s1))"

definition drain_phase :: "sock \<Rightarrow> outcome" where
  "drain_phase s =
     on_recv (recv_all_into s (bytearray 2)) (\<lambda>buf s1.
     on_struct (struct_unpack ''!B!B'' buf) s1 (\<lambda>recv_data.
       case recv_data of
         [rsv, atyp] \<Rightarrow>
           if atyp = 0x01 then
             on_recv (recv_all_into s1 (bytearray 4)) (\<lambda>host_recv_data s2. drain_port s2)
           else if atyp = 0x03 then
             on_recv (recv_all_into s1 (bytearray 1)) (\<lambda>host_len_buf s2.
             on_struct (struct_unpack ''!B'' host_len_buf) s2 (\<lambda>host_len_recv_data.
               case host_len_recv_data of
                 [host_len] \<Rightarrow>
                   on_recv (recv_all_into s2 (bytearray (nat host_len)))
                     (\<lambda>host_recv_data s3. drain_port s3)
               | _ \<Rightarrow> Raises IndexError s2))
           else if atyp = 0x04 then
             on_recv (recv_all_into s1 (bytearray 16)) (\<lambda>host_recv_data s2. drain_port s2)
           else Raises (FormatSocksProxyError ''invalid socks-proxy format (socks5: command phase)'') s1
       | _ \<Rightarrow> Raises IndexError s1))"

subsection \<open>End phase (lines 195-198)\<close>

text \<open>
  \<open>timeout\<close> is \<open>None\<close> when the caller left the parameter at its default (the
  sentinel object), else the value passed. The call on line 196 is
  \<^verbatim>\<open>socket.settimeout(timeout)\<close>: an attribute of the module \<^verbatim>\<open>socket\<close>, which has
  no such function (it has \<^verbatim>\<open>setdefaulttimeout\<close>), not the method of the object
  \<^verbatim>\<open>sock\<close>; looking it up raises \<^verbatim>\<open>AttributeError\<close>.
\<close>

definition end_phase :: "sock \<Rightarrow> pyval option \<Rightarrow> outcome" where
  "end_phase s timeout =
     (case timeout of
        None \<Rightarrow> Returns s
      | Some t \<Rightarrow> Raises (AttributeError ''module socket has no attribute settimeout'') s)"

subsection \<open>The whole call\<close>

definition handshake :: "sock \<Rightarrow> pyval \<Rightarrow> pyval option \<Rightarrow> outcome" where
  "handshake s address timeout =
     (case greeting_phase s of
        Returns s1 \<Rightarrow>
          (case command_phase s1 address of
             Returns s2 \<Rightarrow>
               (case drain_phase s2 of
                  Returns s3 \<Rightarrow> end_phase s3 timeout
                | r \<Rightarrow> r)
           | r \<Rightarrow> r)
      | r \<Rightarrow> r)"

definition proxy_kwargs :: "pyval \<Rightarrow> pyval \<Rightarrow> (string \<rightharpoonup> pyval)" where
  "proxy_kwargs proxy_timeout proxy_source_address =
     (let pk = [''timeout'' \<mapsto>
                 (if proxy_timeout \<noteq> PyNone then proxy_timeout else DEFAULT_PROXY_TIMEOUT)]
      in if proxy_source_address \<noteq> PyNone
         then pk(''source_address'' \<mapsto> proxy_source_address) else pk)"

definition socks_proxy_create_connection ::
  "monkey_patch \<Rightarrow> pyval \<Rightarrow> pyval option \<Rightarrow> pyval option \<Rightarrow> (string \<rightharpoonup> pyval) \<Rightarrow> call_outcome" where
  "socks_proxy_create_connection mp address timeout source_address kwargs =
     (case assert_patched mp of
        Some e \<Rightarrow> BeforeDial e
      | None \<Rightarrow>
          (case kwargs ''proxy_address'' of
             None \<Rightarrow> BeforeDial (KeyError ''proxy_address'')
           | Some proxy_address \<Rightarrow>
               if proxy_address = PyNone then BeforeDial AssertionError
               else if address_malformed address
               then BeforeDial (ArgSocksProxyError
                      ''address of connection must be tuple: hostname (str) and port (int)'')
               else
                 (case original_create_connection mp proxy_address
                         (proxy_kwargs (kwargs_get kwargs ''proxy_timeout'')
                            (kwargs_get kwargs ''proxy_source_address'')) of
                    Inl e \<Rightarrow> DialRaised e
                  | Inr sock0 \<Rightarrow>
                      OnConnection (handshake (setsockopt_keepalive sock0) address timeout))))"

section \<open>recv\_all\_into on Python's socket class\<close>

text \<open>
  The connector treats \<^verbatim>\<open>sock\<close> as a \<^verbatim>\<open>socket.socket\<close>: it calls
  \<^verbatim>\<open>setsockopt(socket.SOL_SOCKET, socket.SO_KEEPALIVE, 1)\<close> and \<^verbatim>\<open>sendall\<close> on it
  and dials with the keywords \<^verbatim>\<open>timeout\<close> and \<^verbatim>\<open>source_address\<close>. On that class
  \<^verbatim>\<open>recv(bufsize)\<close> takes the number of bytes to read and returns them as a
  \<^verbatim>\<open>bytes\<close> object; the call that fills a buffer and returns a count is
  \<^verbatim>\<open>recv_into\<close>. An argument that is not an integer, such as the memoryview that
  line 48 passes, makes \<^verbatim>\<open>recv\<close> raise \<^verbatim>\<open>TypeError\<close> before anything is read.
\<close>

datatype recv_arg = Bufsize nat | Memoryview nat nat

definition socket_recv :: "sock \<Rightarrow> recv_arg \<Rightarrow> error + (byte list \<times> sock)" where
  "socket_recv s a =
     (case a of
        Bufsize k \<Rightarrow> Inr (sock_recv s k)
      | Memoryview off n \<Rightarrow>
          Inl (TypeError ''memoryview object cannot be interpreted as an integer''))"

text \<open>
  Lines 41-48 on such a socket, with the buffer as it is left. With a non-empty buffer
  the first test \<open>0 < len(buf)\<close> holds, the slice is skipped and
  \<^verbatim>\<open>sock.recv(buf)\<close> is called with the view of the whole buffer. Had the call
  returned, \<open>recv_res\<close> would be a \<^verbatim>\<open>bytes\<close> object and the next test
  \<open>recv_res < len(buf)\<close> would raise \<^verbatim>\<open>TypeError\<close>: no path takes a second turn
  of the loop.
\<close>

definition recv_all_into_socket :: "sock \<Rightarrow> byte list \<Rightarrow> outcome \<times> byte list" where
  "recv_all_into_socket s buf =
     (if 0 < length buf then
        (case socket_recv s (Memoryview 0 (length buf)) of
           Inl e \<Rightarrow> (Raises e s, buf)
         | Inr (recv_res, s1) \<Rightarrow>
             (Raises (TypeError ''< not supported between instances of bytes and int'') s1, buf))
      else (Returns s, buf))"

section \<open>Observations and sample inputs\<close>

text \<open>Whether a call got as far as calling \<^verbatim>\<open>original_create_connection\<close>.\<close>

fun dial_attempted :: "call_outcome \<Rightarrow> bool" where
  "dial_attempted (BeforeDial e) = False"
| "dial_attempted (DialRaised e) = True"
| "dial_attempted (OnConnection r) = True"

text \<open>
  Sample inputs for the concrete runs below: a connection just opened, on which the
  proxy will send the given bytes, each read delivering all it can; a
  \<^verbatim>\<open>monkey_patch\<close> whose assertion passes and whose dial returns the given connection;
  and keyword arguments that name a proxy.
\<close>

definition fresh_sock :: "byte list \<Rightarrow> sock" where
  "fresh_sock bs =
     \<lparr>incoming = bs, frags = [], sent = [], keepalive = False, sock_timeout = None\<rparr>"

definition dial_to :: "sock \<Rightarrow> monkey_patch" where
  "dial_to s = \<lparr>assert_patched = None, original_create_connection = (\<lambda>a k. Inr s)\<rparr>"

definition proxy_kw :: "string \<rightharpoonup> pyval" where
  "proxy_kw = [''proxy_address'' \<mapsto> PyTuple [PyStr ''127.0.0.1'', PyInt 1080]]"

section \<open>Facts about the exact read\<close>

text \<open>One turn of the loop: both conditionals on \<open>recv_res > 0\<close> come to advancing the
  window by the count last returned.\<close>

lemma recv_loop_step:
  "recv_loop s arr off n r =
     (if r < n then
        recv_loop (snd (sock_recv s (n - r))) (write_at arr (off + r) (fst (sock_recv s (n - r))))
          (off + r) (n - r) (length (fst (sock_recv s (n - r))))
      else Some (arr, s))"
  by (subst recv_loop.simps) (simp add: Let_def)

lemma sock_recv_pos:
  assumes "\<forall>c \<in> set (frags s). 0 < c" "0 < k" "k \<le> length (incoming s)"
  shows "\<exists>d. 0 < d \<and> d \<le> k \<and> fst (sock_recv s k) = take d (incoming s)
           \<and> incoming (snd (sock_recv s k)) = drop d (incoming s)
           \<and> sent (snd (sock_recv s k)) = sent s
           \<and> (\<forall>c \<in> set (frags (snd (sock_recv s k))). 0 < c)"
proof (cases "frags s")
  case Nil
  with assms show ?thesis by (intro exI[of _ k]) (simp add: sock_recv_def)
next
  case (Cons c cs)
  with assms show ?thesis by (intro exI[of _ "min c k"]) (simp add: sock_recv_def)
qed

text \<open>
  The loop invariant: at the head of the loop the window is \<open>off ..< off + n\<close>, its
  first \<open>r\<close> bytes were filled by the last read, and \<open>n - r\<close> bytes are still due.
\<close>

lemma recv_loop_fills:
  assumes "\<forall>c \<in> set (frags s). 0 < c" "r \<le> n" "n - r \<le> length (incoming s)"
    "off + n \<le> length arr"
  shows "\<exists>s'. recv_loop s arr off n r =
            Some (take (off + r) arr @ take (n - r) (incoming s) @ drop (off + n) arr, s')
          \<and> incoming s' = drop (n - r) (incoming s) \<and> sent s' = sent s"
  using assms
proof (induction "n - r" arbitrary: s arr off n r rule: less_induct)
  case less
  show ?case
  proof (cases "r < n")
    case False
    with less.prems have "r = n" by simp
    then show ?thesis using less.prems by (subst recv_loop_step) simp
  next
    case True
    define k where "k = n - r"
    have kpos: "0 < k" using True by (simp add: k_def)
    from sock_recv_pos[OF less.prems(1) kpos] less.prems(3)
    obtain d where d: "0 < d" "d \<le> k" "fst (sock_recv s k) = take d (incoming s)"
      "incoming (snd (sock_recv s k)) = drop d (incoming s)"
      "sent (snd (sock_recv s k)) = sent s"
      "\<forall>c \<in> set (frags (snd (sock_recv s k))). 0 < c"
      unfolding k_def by blast
    define s1 where "s1 = snd (sock_recv s k)"
    define bs where "bs = take d (incoming s)"
    have lbs: "length bs = d" using d(2) less.prems(3) by (simp add: bs_def k_def)
    define arr1 where "arr1 = write_at arr (off + r) bs"
    have larr1: "length arr1 = length arr"
      using less.prems d(2) lbs by (simp add: arr1_def write_at_def k_def)
    have step: "recv_loop s arr off n r = recv_loop s1 arr1 (off + r) k d"
      using True d(3) lbs by (subst recv_loop_step) (simp add: k_def s1_def arr1_def bs_def)
    have p1: "\<forall>c \<in> set (frags s1). 0 < c" using d(6) by (simp add: s1_def)
    have p3: "k - d \<le> length (incoming s1)"
      using d(4) less.prems(3) by (simp add: s1_def k_def)
    have p4: "off + r + k \<le> length arr1"
      using less.prems(2,4) larr1 by (simp add: k_def)
    have "k - d < n - r" using d(1) kpos by (simp add: k_def)
    from less.hyps[OF this p1 d(2) p3 p4]
    obtain s' where s': "recv_loop s1 arr1 (off + r) k d =
        Some (take (off + r + d) arr1 @ take (k - d) (incoming s1) @ drop (off + r + k) arr1, s')"
      "incoming s' = drop (k - d) (incoming s1)" "sent s' = sent s1"
      by blast
    have t1: "take (off + r + d) arr1 = take (off + r) arr @ bs"
      using less.prems d(2) lbs by (simp add: arr1_def write_at_def k_def)
    have t2: "drop (off + r + k) arr1 = drop (off + n) arr"
      using less.prems d(2) lbs True by (simp add: arr1_def write_at_def k_def add.commute)
    have t3: "bs @ take (k - d) (incoming s1) = take k (incoming s)"
    proof -
      have "take k (incoming s) = take (d + (k - d)) (incoming s)" using d(2) by simp
      also have "\<dots> = take d (incoming s) @ take (k - d) (drop d (incoming s))"
        by (rule take_add)
      finally show ?thesis using d(4) by (simp add: bs_def s1_def)
    qed
    have t4: "incoming s' = drop k (incoming s)"
      using s'(2) d(2) d(4) by (simp add: s1_def)
    have t5: "sent s' = sent s" using s'(3) d(5) by (simp add: s1_def)
    have "recv_loop s arr off n r =
        Some (take (off + r) arr @ take k (incoming s) @ drop (off + n) arr, s')"
      using step s'(1) t1 t2 t3 by simp
    then show ?thesis using t4 t5 by (auto simp: k_def)
  qed
qed

text \<open>
  On a stream whose read fills the buffer, as the Stream interface has it, and whose
  reads each hand over a positive number of bytes, the loop returns with the next
  \<open>length buf\<close> bytes in the buffer in order and exactly these consumed.
\<close>

lemma recv_all_into_stream_fills:
  assumes "\<forall>c \<in> set (frags s). 0 < c" and "length buf \<le> length (incoming s)"
  shows "\<exists>s'. recv_all_into s buf = Some (take (length buf) (incoming s), s')
           \<and> incoming s' = drop (length buf) (incoming s) \<and> sent s' = sent s"
  using recv_loop_fills[of s 0 "length buf" 0 buf] assms
  by (simp add: recv_all_into_def)

text \<open>
  On a connection the peer has closed every read returns 0, the test
  \<open>recv_res < len(buf)\<close> stays true and the loop reads again: no run from such a
  state returns.
\<close>

lemma recv_loop_closed:
  assumes "recv_loop s arr off n r = Some y"
  shows "\<not> (incoming s = [] \<and> r = 0 \<and> 0 < n)"
proof (rule recv_loop.raw_induct
    [where P = "\<lambda>s arr off n r y. \<not> (incoming s = [] \<and> r = 0 \<and> 0 < n)", OF _ assms])
  fix f :: "sock \<Rightarrow> byte list \<Rightarrow> nat \<Rightarrow> nat \<Rightarrow> nat \<Rightarrow> (byte list \<times> sock) option"
  fix s arr off n r y
  assume IH: "\<And>s arr off n r y. f s arr off n r = Some y \<Longrightarrow>
                \<not> (incoming s = [] \<and> r = 0 \<and> 0 < n)"
  assume step: "(if r < n then
        (let off' = (if r > 0 then off + r else off);
             n' = (if r > 0 then n - r else n);
             q = sock_recv s n'
         in f (snd q) (write_at arr off' (fst q)) off' n' (length (fst q)))
      else Some (arr, s)) = Some y"
  show "\<not> (incoming s = [] \<and> r = 0 \<and> 0 < n)"
  proof
    assume a: "incoming s = [] \<and> r = 0 \<and> 0 < n"
    then have f: "fst (sock_recv s n) = []" and i: "incoming (snd (sock_recv s n)) = []"
      by (simp_all add: sock_recv_def split: list.splits)
    from step a f have "f (snd (sock_recv s n)) (write_at arr off []) off n 0 = Some y"
      by (simp add: Let_def)
    from IH[OF this] i a show False by simp
  qed
qed

lemma recv_all_into_closed: "incoming s = [] \<Longrightarrow> buf \<noteq> [] \<Longrightarrow> recv_all_into s buf = None"
  using recv_loop_closed[of s buf 0 "length buf" 0]
  by (cases "recv_all_into s buf") (auto simp: recv_all_into_def)

section \<open>Facts about the connector\<close>

text \<open>
  Every format string with more than one code repeats the byte-order character
  (\<^verbatim>\<open>'!B!B!B'\<close>, \<^verbatim>\<open>'!B!B'\<close>, \<^verbatim>\<open>'!B!B!B!B!B'\<close>), so \<^verbatim>\<open>struct\<close> refuses each
  of them, whatever the arguments. The formats \<^verbatim>\<open>'!H'\<close> and \<^verbatim>\<open>'!B'\<close> are
  well-formed.
\<close>

lemma pack_bad_char3:
  "struct_pack ''!B!B!B'' args = Inl (StructError ''bad char in struct format'')"
  by (simp add: struct_pack_def prepare_s_def struct_body_def)

lemma pack_bad_char5:
  "struct_pack ''!B!B!B!B!B'' args = Inl (StructError ''bad char in struct format'')"
  by (simp add: struct_pack_def prepare_s_def struct_body_def)

lemma unpack_bad_char2:
  "struct_unpack ''!B!B'' buf = Inl (StructError ''bad char in struct format'')"
  by (simp add: struct_unpack_def prepare_s_def struct_body_def)

lemma pack_port_example: "struct_pack ''!H'' [8080] = Inr [0x1F, 0x90]"
  by (simp add: struct_pack_def prepare_s_def struct_body_def pack_item_def)

lemma greeting_phase_struct_error:
  "greeting_phase s = Raises (StructError ''bad char in struct format'') s"
  by (simp add: greeting_phase_def pack_bad_char3 on_struct_def)

lemma handshake_struct_error:
  "handshake s address timeout = Raises (StructError ''bad char in struct format'') s"
  by (simp add: handshake_def greeting_phase_struct_error)

lemma command_phase_struct_error:
  "address_parts address = Some (h, p) \<Longrightarrow>
   command_phase s address = Raises (StructError ''bad char in struct format'') s"
  by (simp add: command_phase_def pack_bad_char5 on_struct_def Let_def)

lemma drain_phase_struct_error:
  assumes "\<forall>c \<in> set (frags s). 0 < c" "2 \<le> length (incoming s)"
  shows "\<exists>s'. drain_phase s = Raises (StructError ''bad char in struct format'') s'
            \<and> incoming s' = drop 2 (incoming s) \<and> sent s' = sent s"
proof -
  from recv_loop_fills[of s 0 2 0 "bytearray 2"] assms
  obtain s' where "recv_all_into s (bytearray 2) = Some (take 2 (incoming s), s')"
    "incoming s' = drop 2 (incoming s)" "sent s' = sent s"
    by (auto simp: bytearray_def recv_all_into_def)
  then show ?thesis
    by (simp add: drain_phase_def on_recv_def on_struct_def unpack_bad_char2)
qed

text \<open>The entry test in the words of its error message: the address passes exactly
  when it is a tuple or list of two elements, a \<^verbatim>\<open>str\<close> and an \<^verbatim>\<open>int\<close>.\<close>

lemma address_malformed_iff:
  "address_malformed address =
     (\<not> (\<exists>h p. (address = PyTuple [h, p] \<or> address = PyList [h, p])
              \<and> isinstance_str h \<and> isinstance_int p))"
proof (cases "py_items address")
  case None
  then show ?thesis by (cases address) (simp_all add: address_malformed_def)
next
  case (Some xs)
  have len2: "length xs = 2 \<longleftrightarrow> (\<exists>h p. xs = [h, p])"
    by (cases xs; cases "tl xs"; cases "tl (tl xs)") auto
  from Some have "address = PyTuple xs \<or> address = PyList xs" by (cases address) simp_all
  then show ?thesis using Some len2
    by (auto simp: address_malformed_def)
qed

text \<open>The assertions of the command phase hold of every address that passed the
  entry test.\<close>

lemma address_parts_None: "(address_parts address = None) = address_malformed address"
proof (cases "\<exists>h p. (address = PyTuple [h, p] \<or> address = PyList [h, p])")
  case True
  then obtain h p where hp: "address = PyTuple [h, p] \<or> address = PyList [h, p]" by blast
  then show ?thesis
    by (cases h; cases p) (auto simp: address_parts_def address_malformed_def)
next
  case False
  then have m: "address_malformed address" by (auto simp: address_malformed_iff)
  have "address_parts address = None"
  proof (cases "py_items address")
    case None
    then show ?thesis by (simp add: address_parts_def)
  next
    case (Some xs)
    then have "address = PyTuple xs \<or> address = PyList xs" by (cases address) simp_all
    with False have "\<not> (\<exists>h p. xs = [h, p])" by auto
    then show ?thesis using Some
      by (auto simp: address_parts_def split: list.splits)
  qed
  with m show ?thesis by simp
qed

text \<open>
  No phase raises the exception of the entry test, and the assertions at the head of the
  command phase cannot fail on an address that passed that test.
\<close>

lemma drain_phase_cases:
  "drain_phase s = Diverges
   \<or> (\<exists>s1. drain_phase s = Raises (StructError ''bad char in struct format'') s1)"
  by (cases "recv_all_into s (bytearray 2)")
     (auto simp: drain_phase_def on_recv_def on_struct_def unpack_bad_char2)

lemma command_phase_cases:
  "command_phase s address = Raises AssertionError s
   \<or> command_phase s address = Raises (StructError ''bad char in struct format'') s"
  by (cases "address_parts address") (auto simp: command_phase_struct_error, simp add: command_phase_def)

lemma phases_never_arg_error:
  "greeting_phase s \<noteq> Raises (ArgSocksProxyError m) s'"
  "command_phase s address \<noteq> Raises (ArgSocksProxyError m) s'"
  "drain_phase s \<noteq> Raises (ArgSocksProxyError m) s'"
  "end_phase s timeout \<noteq> Raises (ArgSocksProxyError m) s'"
  "handshake s address timeout \<noteq> Raises (ArgSocksProxyError m) s'"
  using drain_phase_cases[of s] command_phase_cases[of s address]
  by (auto simp: greeting_phase_struct_error handshake_struct_error end_phase_def
      split: option.splits)

lemma command_phase_asserts_hold:
  assumes "\<not> address_malformed address"
  shows "command_phase s address \<noteq> Raises AssertionError s'"
proof -
  from assms obtain h p where "address_parts address = Some (h, p)"
    using address_parts_None[of address] by (cases "address_parts address") auto
  then show ?thesis by (simp add: command_phase_struct_error)
qed

lemma connect_valid:
  assumes "assert_patched mp = None" "kwargs ''proxy_address'' = Some pa" "pa \<noteq> PyNone"
    and "\<not> address_malformed address"
  shows "socks_proxy_create_connection mp address timeout source_address kwargs =
     (case original_create_connection mp pa
             (proxy_kwargs (kwargs_get kwargs ''proxy_timeout'')
                (kwargs_get kwargs ''proxy_source_address'')) of
        Inl e \<Rightarrow> DialRaised e
      | Inr sock0 \<Rightarrow> OnConnection (handshake (setsockopt_keepalive sock0) address timeout))"
  using assms by (simp add: socks_proxy_create_connection_def)

lemma connect_invalid:
  assumes "assert_patched mp = None" "kwargs ''proxy_address'' = Some pa" "pa \<noteq> PyNone"
    and "address_malformed address"
  shows "socks_proxy_create_connection mp address timeout source_address kwargs =
     BeforeDial (ArgSocksProxyError
                   ''address of connection must be tuple: hostname (str) and port (int)'')"
  using assms by (simp add: socks_proxy_create_connection_def)

text \<open>The status table of lines 139-158, and the rendering of a status outside it.\<close>

lemma error_descr_table:
  "error_descr 0x01 = ''general failure''"
  "error_descr 0x02 = ''connection not allowed by ruleset''"
  "error_descr 0x03 = ''network unreachable''"
  "error_descr 0x04 = ''host unreachable''"
  "error_descr 0x05 = ''connection refused by destination host''"
  "error_descr 0x06 = ''TTL expired''"
  "error_descr 0x07 = ''command not supported / protocol error''"
  "error_descr 0x08 = ''address type not supported''"
  "error_descr 0xFF = ''0xff''"
  by (simp_all add: error_descr_def py_hex_def hex_digit_def)

section \<open>The claims\<close>

text \<open>
  C1. The claim: when a read returns 0 bytes before the buffer is full,
  \<open>recv_all_into\<close> ends with a ConnectError ("connection closed by proxy") and never
  loops on a stream that keeps returning 0. The code has no such test: on a closed
  connection (nothing incoming) it never returns, whatever the non-empty buffer.
\<close>

theorem recv_all_into_closed_never_returns:
  "recv_all_into (s\<lparr>incoming := []\<rparr>) (b # buf) = None"
  by (rule recv_all_into_closed) simp_all

text \<open>
  C2, as amended. A target whose host name encodes to 256 bytes or more is not
  rejected by the argument validation. When it is a tuple or list of a \<^verbatim>\<open>str\<close> and
  an \<^verbatim>\<open>int\<close> (the assertion of \<^verbatim>\<open>monkey_patch\<close> passing and a proxy address being
  given), the call goes on to dial the proxy, and the connector raises
  ArgSocksProxyError neither before the dial nor on the connection; an exception at
  the dial is the one the dial function itself raised.
\<close>

theorem long_hostname_passes_validation:
  assumes "assert_patched mp = None" and "kwargs ''proxy_address'' = Some pa" and "pa \<noteq> PyNone"
    and "address = PyTuple [PyStr h, PyInt p] \<or> address = PyList [PyStr h, PyInt p]"
    and "256 \<le> length (str_encode h)"
  shows "dial_attempted (socks_proxy_create_connection mp address timeout source_address kwargs)
       \<and> (\<forall>m. socks_proxy_create_connection mp address timeout source_address kwargs
                \<noteq> BeforeDial (ArgSocksProxyError m))
       \<and> (\<forall>m s'. socks_proxy_create_connection mp address timeout source_address kwargs
                \<noteq> OnConnection (Raises (ArgSocksProxyError m) s'))
       \<and> (\<forall>e. socks_proxy_create_connection mp address timeout source_address kwargs
                  = DialRaised e
              \<longrightarrow> original_create_connection mp pa
                    (proxy_kwargs (kwargs_get kwargs ''proxy_timeout'')
                       (kwargs_get kwargs ''proxy_source_address'')) = Inl e)"
proof -
  from assms(4) have "\<not> address_malformed address"
    by (auto simp: address_malformed_def)
  then have "socks_proxy_create_connection mp address timeout source_address kwargs =
     (case original_create_connection mp pa
             (proxy_kwargs (kwargs_get kwargs ''proxy_timeout'')
                (kwargs_get kwargs ''proxy_source_address'')) of
        Inl e \<Rightarrow> DialRaised e
      | Inr sock0 \<Rightarrow> OnConnection (handshake (setsockopt_keepalive sock0) address timeout))"
    using assms(1-3) by (intro connect_valid)
  then show ?thesis
    by (auto split: sum.splits simp: phases_never_arg_error(5))
qed

theorem long_hostname_passes_validation_witness:
  "dial_attempted
     (socks_proxy_create_connection (dial_to (fresh_sock []))
        (PyTuple [PyStr (replicate 256 CHR ''a''), PyInt 80]) None None proxy_kw)"
proof -
  have a: "assert_patched (dial_to (fresh_sock [])) = None" by (simp add: dial_to_def)
  have b: "proxy_kw ''proxy_address'' = Some (PyTuple [PyStr ''127.0.0.1'', PyInt 1080])"
    by (simp add: proxy_kw_def)
  have c: "PyTuple [PyStr ''127.0.0.1'', PyInt 1080] \<noteq> PyNone" by simp
  have d: "PyTuple [PyStr (replicate 256 CHR ''a''), PyInt 80]
             = PyTuple [PyStr (replicate 256 CHR ''a''), PyInt 80]
         \<or> PyTuple [PyStr (replicate 256 CHR ''a''), PyInt 80]
             = PyList [PyStr (replicate 256 CHR ''a''), PyInt 80]" by simp
  have e: "256 \<le> length (str_encode (replicate 256 CHR ''a''))" by (simp add: str_encode_def)
  from long_hostname_passes_validation
    [where mp = "dial_to (fresh_sock [])" and kwargs = proxy_kw
       and pa = "PyTuple [PyStr ''127.0.0.1'', PyInt 1080]"
       and address = "PyTuple [PyStr (replicate 256 CHR ''a''), PyInt 80]"
       and h = "replicate 256 CHR ''a''" and p = 80
       and timeout = None and source_address = None, OF a b c d e]
  show ?thesis by (rule conjunct1)
qed

text \<open>
  C2 as stated fails: with a host name of 256 bytes the proxy is dialed, and the call
  does not end in the ArgSocksProxyError of the entry test.
\<close>

theorem long_hostname_not_rejected_counterexample:
  "length (str_encode (replicate 256 CHR ''a'')) = 256
   \<and> dial_attempted
        (socks_proxy_create_connection (dial_to (fresh_sock []))
           (PyTuple [PyStr (replicate 256 CHR ''a''), PyInt 80]) None None proxy_kw)
   \<and> socks_proxy_create_connection (dial_to (fresh_sock []))
        (PyTuple [PyStr (replicate 256 CHR ''a''), PyInt 80]) None None proxy_kw
      \<noteq> BeforeDial (ArgSocksProxyError
            ''address of connection must be tuple: hostname (str) and port (int)'')"
  by (simp add: socks_proxy_create_connection_def dial_to_def proxy_kw_def str_encode_def
      address_malformed_def)

text \<open>
  C3. The claim: a timeout the caller supplied is applied to the connection that is
  returned. The code calls \<^verbatim>\<open>socket.settimeout\<close>, a name the module \<^verbatim>\<open>socket\<close>
  does not have: with a timeout supplied the end phase raises AttributeError, the
  connection is not returned and its timeout is as before.
\<close>

theorem end_phase_timeout_attribute_error:
  "end_phase s (Some t) = Raises (AttributeError ''module socket has no attribute settimeout'') s"
  by (simp add: end_phase_def)

text \<open>
  C4. The claim: the command phase writes \<open>7 + len(hostname)\<close> bytes, 05 01 00 03, the
  length, the host name and the port. The code packs the first five with the format
  \<^verbatim>\<open>'!B!B!B!B!B'\<close>, which \<^verbatim>\<open>struct\<close> refuses: for every host and port the command
  phase raises \<^verbatim>\<open>struct.error\<close> and leaves the connection as it was, nothing
  written.
\<close>

theorem command_phase_sends_nothing:
  "command_phase s (PyTuple [PyStr h, PyInt p])
     = Raises (StructError ''bad char in struct format'') s"
  by (rule command_phase_struct_error[of _ h p]) (simp add: address_parts_def)

text \<open>
  C5. The claim: after the 2-byte header the drain consumes 4 + 2, 1 + L + 2 or
  16 + 2 bytes by address type, and fails with FormatError on any other type. The
  code decodes the header with the format \<^verbatim>\<open>'!B!B'\<close>, which \<^verbatim>\<open>struct\<close> refuses: on
  a reply with address type 01 the drain reads the two header bytes and raises
  \<^verbatim>\<open>struct.error\<close>, the bound address and port left unread.
\<close>

theorem drain_phase_stops_after_header:
  "drain_phase (fresh_sock [0x00, 0x01, 127, 0, 0, 1, 0x1F, 0x90])
     = Raises (StructError ''bad char in struct format'') (fresh_sock [127, 0, 0, 1, 0x1F, 0x90])"
  by (simp add: drain_phase_def on_recv_def on_struct_def unpack_bad_char2
      recv_all_into_def fresh_sock_def bytearray_def recv_loop.simps sock_recv_def
      write_at_def Let_def numeral_2_eq_2)

text \<open>
  C6. The claim: the greeting phase writes 05 01 00, reads two bytes and classifies
  them. The code packs the greeting with the format \<^verbatim>\<open>'!B!B!B'\<close>, which
  \<^verbatim>\<open>struct\<close> refuses: on every connection the greeting phase raises
  \<^verbatim>\<open>struct.error\<close> with nothing written and nothing read.
\<close>

theorem greeting_phase_sends_nothing:
  "struct_pack ''!B!B!B'' [0x05, 0x01, 0x00] = Inl (StructError ''bad char in struct format'')
   \<and> greeting_phase s = Raises (StructError ''bad char in struct format'') s"
  by (simp add: greeting_phase_struct_error pack_bad_char3)

text \<open>
  C7. The claim: a command reply 05 00 succeeds, 05 01 .. 05 08 fail with ConnectError
  and the reason of the status table, other statuses with the hexadecimal status. With
  the reply 05 05 waiting, the command phase of the code raises \<^verbatim>\<open>struct.error\<close>
  before it writes the request or reads the reply; and the decoding of the reply with
  the format \<^verbatim>\<open>'!B!B'\<close> is refused as well.
\<close>

theorem command_reply_never_classified:
  "struct_unpack ''!B!B'' [0x05, 0x05] = Inl (StructError ''bad char in struct format'')
   \<and> command_phase (fresh_sock [0x05, 0x05]) (PyTuple [PyStr ''example.com'', PyInt 80])
       = Raises (StructError ''bad char in struct format'') (fresh_sock [0x05, 0x05])"
  by (simp add: unpack_bad_char2 command_phase_struct_error[of _ "''example.com''" 80]
      address_parts_def)

text \<open>
  C8. The claim: with reads that each deliver a positive number of bytes,
  \<open>recv_all_into\<close> returns with the next N bytes of the stream in the buffer. On the
  socket the connector uses, line 48 passes the view to \<^verbatim>\<open>recv\<close>, which takes a
  byte count: for every non-empty buffer the call raises \<^verbatim>\<open>TypeError\<close>, nothing is
  consumed and the buffer is as it was.
\<close>

theorem recv_all_into_socket_type_error:
  "recv_all_into_socket s (b # buf)
     = (Raises (TypeError ''memoryview object cannot be interpreted as an integer'') s, b # buf)"
  by (simp add: recv_all_into_socket_def socket_recv_def)

text \<open>
  C9, as amended. The assertion of \<^verbatim>\<open>monkey_patch\<close> passing and a proxy address
  being given, the call ends in the ArgSocksProxyError of the entry test, raised
  before the proxy is dialed, exactly when the target is not a tuple or list of two
  elements of which the first is a \<^verbatim>\<open>str\<close> and the second an \<^verbatim>\<open>int\<close>. The test
  looks at neither the length of the host name nor the range of the port. It is made
  once, at the entry: no phase raises ArgSocksProxyError, and the assertions that
  repeat the test at the head of the command phase (lines 108-110) cannot fail on a
  target that passed it.
\<close>

theorem malformed_address_rejected_before_dial:
  assumes "assert_patched mp = None" and "kwargs ''proxy_address'' = Some pa" and "pa \<noteq> PyNone"
  shows "((socks_proxy_create_connection mp address timeout source_address kwargs
            = BeforeDial (ArgSocksProxyError
                ''address of connection must be tuple: hostname (str) and port (int)''))
       = (\<not> (\<exists>h p. (address = PyTuple [h, p] \<or> address = PyList [h, p])
                \<and> isinstance_str h \<and> isinstance_int p)))
     \<and> (\<forall>s m s'. greeting_phase s \<noteq> Raises (ArgSocksProxyError m) s'
                \<and> command_phase s address \<noteq> Raises (ArgSocksProxyError m) s'
                \<and> drain_phase s \<noteq> Raises (ArgSocksProxyError m) s'
                \<and> end_phase s timeout \<noteq> Raises (ArgSocksProxyError m) s')
     \<and> ((\<exists>h p. (address = PyTuple [h, p] \<or> address = PyList [h, p])
                \<and> isinstance_str h \<and> isinstance_int p)
          \<longrightarrow> (\<forall>s s'. command_phase s address \<noteq> Raises AssertionError s'))"
proof (intro conjI)
  show "(socks_proxy_create_connection mp address timeout source_address kwargs
            = BeforeDial (ArgSocksProxyError
                ''address of connection must be tuple: hostname (str) and port (int)''))
       = (\<not> (\<exists>h p. (address = PyTuple [h, p] \<or> address = PyList [h, p])
                \<and> isinstance_str h \<and> isinstance_int p))"
  proof (cases "address_malformed address")
    case True
    have "socks_proxy_create_connection mp address timeout source_address kwargs =
       BeforeDial (ArgSocksProxyError
                     ''address of connection must be tuple: hostname (str) and port (int)'')"
      using assms True by (intro connect_invalid)
    with True show ?thesis by (simp add: address_malformed_iff)
  next
    case False
    have "socks_proxy_create_connection mp address timeout source_address kwargs =
       (case original_create_connection mp pa
               (proxy_kwargs (kwargs_get kwargs ''proxy_timeout'')
                  (kwargs_get kwargs ''proxy_source_address'')) of
          Inl e \<Rightarrow> DialRaised e
        | Inr sock0 \<Rightarrow> OnConnection (handshake (setsockopt_keepalive sock0) address timeout))"
      using assms False by (intro connect_valid)
    then have
      "dial_attempted (socks_proxy_create_connection mp address timeout source_address kwargs)"
      by (simp split: sum.splits)
    then have "socks_proxy_create_connection mp address timeout source_address kwargs
        \<noteq> BeforeDial (ArgSocksProxyError
                  ''address of connection must be tuple: hostname (str) and port (int)'')"
      by auto
    with False show ?thesis by (simp add: address_malformed_iff)
  qed
next
  show "\<forall>s m s'. greeting_phase s \<noteq> Raises (ArgSocksProxyError m) s'
                \<and> command_phase s address \<noteq> Raises (ArgSocksProxyError m) s'
                \<and> drain_phase s \<noteq> Raises (ArgSocksProxyError m) s'
                \<and> end_phase s timeout \<noteq> Raises (ArgSocksProxyError m) s'"
    by (simp add: phases_never_arg_error)
next
  show "(\<exists>h p. (address = PyTuple [h, p] \<or> address = PyList [h, p])
                \<and> isinstance_str h \<and> isinstance_int p)
          \<longrightarrow> (\<forall>s s'. command_phase s address \<noteq> Raises AssertionError s')"
  proof
    assume "\<exists>h p. (address = PyTuple [h, p] \<or> address = PyList [h, p])
                \<and> isinstance_str h \<and> isinstance_int p"
    then have "\<not> address_malformed address" by (simp add: address_malformed_iff)
    then show "\<forall>s s'. command_phase s address \<noteq> Raises AssertionError s'"
      by (simp add: command_phase_asserts_hold)
  qed
qed

theorem malformed_address_rejected_before_dial_witness:
  "socks_proxy_create_connection (dial_to (fresh_sock [])) (PyStr ''example.com:80'') None None
     proxy_kw
   = BeforeDial (ArgSocksProxyError
       ''address of connection must be tuple: hostname (str) and port (int)'')"
proof -
  have a: "assert_patched (dial_to (fresh_sock [])) = None" by (simp add: dial_to_def)
  have b: "proxy_kw ''proxy_address'' = Some (PyTuple [PyStr ''127.0.0.1'', PyInt 1080])"
    by (simp add: proxy_kw_def)
  have c: "PyTuple [PyStr ''127.0.0.1'', PyInt 1080] \<noteq> PyNone" by simp
  have d: "\<not> (\<exists>h p. (PyStr ''example.com:80'' = PyTuple [h, p]
                     \<or> PyStr ''example.com:80'' = PyList [h, p])
                \<and> isinstance_str h \<and> isinstance_int p)" by simp
  from malformed_address_rejected_before_dial
    [where mp = "dial_to (fresh_sock [])" and kwargs = proxy_kw
       and pa = "PyTuple [PyStr ''127.0.0.1'', PyInt 1080]"
       and address = "PyStr ''example.com:80''"
       and timeout = None and source_address = None, OF a b c, THEN conjunct1] d
  show ?thesis by (rule iffD2)
qed

text \<open>
  C9 as stated fails: a target with an empty host name, and one with the port 70000,
  pass the entry test, and the proxy is dialed.
\<close>

theorem empty_host_passes_validation_counterexample:
  "dial_attempted
     (socks_proxy_create_connection (dial_to (fresh_sock []))
        (PyTuple [PyStr [], PyInt 80]) None None proxy_kw)
   \<and> dial_attempted
     (socks_proxy_create_connection (dial_to (fresh_sock []))
        (PyTuple [PyStr ''example.com'', PyInt 70000]) None None proxy_kw)"
  by (simp add: socks_proxy_create_connection_def dial_to_def proxy_kw_def address_malformed_def)

text \<open>
  C10. The claim: on a command reply with version 05 and a non-zero status the call
  raises ConnectError without reading further. With a proxy that would answer the
  greeting with 05 00 and the request with 05 05, the call of the code raises
  \<^verbatim>\<open>struct.error\<close> in the greeting phase: no byte of the replies is read and no
  ConnectError is raised.
\<close>

theorem connect_refused_reply_struct_error:
  "socks_proxy_create_connection
     (dial_to (fresh_sock [0x05, 0x00, 0x05, 0x05, 0x00, 0x01, 0, 0, 0, 0, 0, 0]))
     (PyTuple [PyStr ''example.com'', PyInt 80]) None None proxy_kw
   = OnConnection (Raises (StructError ''bad char in struct format'')
       (setsockopt_keepalive (fresh_sock [0x05, 0x00, 0x05, 0x05, 0x00, 0x01, 0, 0, 0, 0, 0, 0])))"
  by (simp add: socks_proxy_create_connection_def dial_to_def proxy_kw_def address_malformed_def
      handshake_struct_error)

end
